theory Spec2Isabelle
  imports Main
begin

section \<open>The Sophie protocol client (package sophie)\<close>

text \<open>
  The development embeds the client of the Sophie scanning protocol. The source tree holds
  two revisions of the client. The later one declares the message constants and
  \<open>defaultCmdTimeout\<close> (\<^verbatim>\<open>unnamed/part_000\<close>, tested by \<^verbatim>\<open>unnamed/part_002\<close>,
  which refers to those constants); the earlier one is \<^verbatim>\<open>sophie.go\<close> (tested by
  \<^verbatim>\<open>sophie_test.go\<close>). The definitions follow the later revision. Where the earlier
  one returns something else, in \<open>processResponse\<close> and \<open>NewClient\<close>, the function is
  embedded again under the suffix \<open>_prev\<close>.

  Go strings are byte sequences, and so are HOL strings. \<open>time.Duration\<close> is a number of
  nanoseconds. Go's \<open>int\<close> is modelled by \<open>int\<close>. The only arithmetic on it is the
  increment of the loop counter of \<open>dial\<close>, made only while the counter is at most
  \<open>connRetries\<close>: as long as \<open>connRetries\<close> is below the largest machine integer of the
  platform (\<open>maxInt\<close>) the machine counter does not wrap around and is the counter of the
  model. For \<open>connRetries = maxInt\<close> the test \<open>i <= c.connRetries\<close> of the source can
  never fail and the source loop ends only with an attempt that does not time out. The
  loop is therefore embedded a second time with the machine counter, as a partial
  function (\<open>dialLoopMachine\<close>); the two are proved to agree for \<open>connRetries < maxInt\<close>,
  which is what the theorem on \<open>dial\<close> assumes.
\<close>

subsection \<open>Constants\<close>

type_synonym duration = int

definition Second :: duration where
  "Second = 1000000000"

definition Minute :: duration where
  "Minute = 60 * Second"

definition defaultSleep :: duration where
  "defaultSleep = 1 * Second"

definition defaultTimeout :: duration where
  "defaultTimeout = 15 * Second"

definition defaultCmdTimeout :: duration where
  "defaultCmdTimeout = 1 * Minute"

definition defaultSock :: string where
  "defaultSock = ''/var/lib/savdid/savdid.sock''"

text \<open>
  The message constants with a \<open>%s\<close> verb are only ever used as
  \<open>fmt.Errorf(format, s)\<close> with a string argument; they are modelled applied to it.
\<close>

definition invalidRespErr :: "string \<Rightarrow> string" where
  "invalidRespErr l = ''Invalid server response: '' @ l"

definition unsupportedProtoErr :: "string \<Rightarrow> string" where
  "unsupportedProtoErr n = ''Protocol: '' @ n @ '' is not supported''"

definition unixSockErr :: "string \<Rightarrow> string" where
  "unixSockErr a = ''The unix socket: '' @ a @ '' does not exist''"

definition unknownStatusErr :: string where
  "unknownStatusErr = ''Unknown status''"

definition noSizeErr :: string where
  "noSizeErr = ''The content length could not be determined''"

definition tcpDirErr :: string where
  "tcpDirErr = ''Scanning directories not supported on a TCP connection''"

subsection \<open>Errors, panics and results\<close>

text \<open>
  Go errors are values. \<open>ErrorString\<close> is what \<open>fmt.Errorf\<close> builds, \<open>PathError\<close> is
  the failure of a file system call with its \<open>os.IsNotExist\<close> classification, \<open>NetError\<close>
  is an error implementing \<open>net.Error\<close> with the answer of its \<open>Timeout()\<close> method, and
  \<open>OtherError\<close> is any other error value (for example \<open>io.EOF\<close>).
\<close>

datatype error =
    ErrorString string
  | PathError bool string
  | NetError bool string
  | OtherError string

text \<open>\<open>os.IsNotExist(err)\<close>, where \<open>err\<close> may be nil.\<close>

fun IsNotExist :: "error option \<Rightarrow> bool" where
  "IsNotExist (Some (PathError ne _)) = ne"
| "IsNotExist _ = False"

text \<open>The test \<open>e, ok := err.(net.Error); ok && e.Timeout()\<close>, where \<open>err\<close> may be nil.\<close>

fun isNetTimeout :: "error option \<Rightarrow> bool" where
  "isNetTimeout (Some (NetError t _)) = t"
| "isNetTimeout _ = False"

text \<open>A call either returns or panics (a run-time error of the Go program).\<close>

datatype 'a outcome = Panic | Return 'a

subsection \<open>Data\<close>

record Response =
  Filename :: string
  Signature :: string
  Infected :: bool
  Raw :: string

record Client =
  network :: string
  address :: string
  connTimeout :: duration
  connRetries :: int
  connSleep :: duration
  cmdTimeout :: duration

record FileInfo =
  IsDir :: bool
  Size :: int

text \<open>
  The \<open>io.Reader\<close> values that \<open>readerCmd\<close> distinguishes by its type switch, each with
  the bytes still to be read; an open file also carries what its \<open>Stat\<close> method returns.
\<close>

datatype reader =
    BytesBuffer string
  | BytesReader string
  | StringsReader string
  | OSFile "error + FileInfo" string
  | OtherReader string

fun unread :: "reader \<Rightarrow> string" where
  "unread (BytesBuffer b) = b"
| "unread (BytesReader b) = b"
| "unread (StringsReader b) = b"
| "unread (OSFile st b) = b"
| "unread (OtherReader b) = b"

datatype conn = Conn nat

subsection \<open>The environment and the trace\<close>

text \<open>
  The file system and the network are an environment that answers each call. \<open>netDial k\<close>
  is the result of the \<open>k\<close>-th dial attempt of a scan (counted from 0), \<open>connReadLine k\<close> the
  result of the \<open>k\<close>-th \<open>ReadLine\<close> on the connection, \<open>connPrintfLine\<close> the result of
  writing and flushing the request line, \<open>connCopy\<close> the result of \<open>io.Copy\<close>.
\<close>

record env =
  fsStat :: "string \<Rightarrow> error + FileInfo"
  fsOpen :: "string \<Rightarrow> error + reader"
  netDial :: "nat \<Rightarrow> error + conn"
  connPrintfLine :: "error option"
  connReadLine :: "nat \<Rightarrow> error + string"
  connCopy :: "error option"
  intSize :: nat

text \<open>
  \<open>intSize\<close> is the width in bits of Go's \<open>int\<close> on the platform the client runs on
  (32 or 64), \<open>maxInt\<close> the largest value of that type.
\<close>

definition maxInt :: "env \<Rightarrow> int" where
  "maxInt ev = 2 ^ (intSize ev - 1) - 1"

text \<open>
  What a scan does to the network and the clock is recorded, in order, as a trace. The
  request bookkeeping of \<open>textproto\<close> (\<open>Next\<close>, \<open>StartRequest\<close>, \<open>EndRequest\<close>,
  \<open>StartResponse\<close>, \<open>EndResponse\<close>) performs no input or output and, for the single request
  of a fresh connection, never waits; it leaves no event.
\<close>

datatype event =
    Dial string string duration
  | Sleep duration
  | SetDeadline duration
  | SendLine string
  | RecvLine
  | SendPayload string
  | Flush
  | Close

type_synonym trace = "event list"

fun isDial :: "event \<Rightarrow> bool" where
  "isDial (Dial n a t) = True"
| "isDial _ = False"

definition attempts :: "trace \<Rightarrow> nat" where
  "attempts w = length (filter isDial w)"

text \<open>What a trace writes to the connection, in order.\<close>

fun isSend :: "event \<Rightarrow> bool" where
  "isSend (SendLine l) = True"
| "isSend (SendPayload b) = True"
| "isSend _ = False"

definition sent :: "trace \<Rightarrow> trace" where
  "sent w = filter isSend w"

subsection \<open>Strings\<close>

text \<open>\<open>strings.HasPrefix(s, prefix)\<close>.\<close>

definition HasPrefix :: "string \<Rightarrow> string \<Rightarrow> bool" where
  "HasPrefix s pre = (length pre \<le> length s \<and> take (length pre) s = pre)"

text \<open>The slice expression \<open>s[n:]\<close>, which panics when \<open>n\<close> exceeds the length.\<close>

definition sliceFrom :: "string \<Rightarrow> nat \<Rightarrow> string outcome" where
  "sliceFrom s n = (if n \<le> length s then Return (drop n s) else Panic)"

text \<open>The verb \<open>%d\<close> applied to an integer.\<close>

definition digitChar :: "nat \<Rightarrow> char" where
  "digitChar n = ''0123456789'' ! (n mod 10)"

fun decNat :: "nat \<Rightarrow> string" where
  "decNat n = (if n < 10 then [digitChar n] else decNat (n div 10) @ [digitChar n])"

declare decNat.simps [simp del]

definition dec :: "int \<Rightarrow> string" where
  "dec i = (if i < 0 then CHR ''-'' # decNat (nat (- i)) else decNat (nat i))"

subsection \<open>Configuration\<close>

definition SetConnTimeout :: "Client \<Rightarrow> duration \<Rightarrow> Client" where
  "SetConnTimeout c t = c\<lparr>connTimeout := t\<rparr>"

definition SetCmdTimeout :: "Client \<Rightarrow> duration \<Rightarrow> Client" where
  "SetCmdTimeout c t = c\<lparr>cmdTimeout := t\<rparr>"

definition SetConnRetries :: "Client \<Rightarrow> int \<Rightarrow> Client" where
  "SetConnRetries c s = c\<lparr>connRetries := (if s < 0 then 0 else s)\<rparr>"

definition SetConnSleep :: "Client \<Rightarrow> duration \<Rightarrow> Client" where
  "SetConnSleep c s = c\<lparr>connSleep := s\<rparr>"

definition supportedNetwork :: "string \<Rightarrow> bool" where
  "supportedNetwork n =
     (\<not> (n \<noteq> ''unix'' \<and> n \<noteq> ''unixpacket'' \<and> n \<noteq> ''tcp'' \<and> n \<noteq> ''tcp4'' \<and> n \<noteq> ''tcp6''))"

text \<open>The error component of a call that returns a value and an error.\<close>

fun errOf :: "error + 'a \<Rightarrow> error option" where
  "errOf (Inl e) = Some e"
| "errOf (Inr v) = None"

text \<open>
  \<open>NewClient\<close> returns a client and an error. When \<open>os.Stat\<close> of a unix socket fails with
  an error other than not-found, the error stays in \<open>err\<close> and the client is built all
  the same, so both components can be set.
\<close>

definition NewClient :: "env \<Rightarrow> string \<Rightarrow> string \<Rightarrow> Client option \<times> error option" where
  "NewClient ev network0 address0 =
     (let (nw, ad) = (if network0 = '''' \<and> address0 = '''' then (''unix'', defaultSock)
                      else (network0, address0))
      in if \<not> supportedNetwork nw then (None, Some (ErrorString (unsupportedProtoErr nw)))
         else
           (let err = (if nw = ''unix'' \<or> nw = ''unixpacket'' then errOf (fsStat ev ad) else None)
            in if (nw = ''unix'' \<or> nw = ''unixpacket'') \<and> IsNotExist err
               then (None, Some (ErrorString (unixSockErr ad)))
               else (Some \<lparr>network = nw, address = ad, connTimeout = defaultTimeout,
                            connRetries = 0, connSleep = defaultSleep,
                            cmdTimeout = defaultCmdTimeout\<rparr>, err)))"

subsection \<open>Response decoding\<close>

text \<open>
  \<open>processResponse\<close> reads one line and decodes it. Its first argument is what
  \<open>tc.ReadLine()\<close> returned. The response and the error are both returned: for a failed
  decode the response holds the file name only.
\<close>

definition processResponse ::
  "error + string \<Rightarrow> string \<Rightarrow> (Response option \<times> error option) outcome" where
  "processResponse rl p =
     (case rl of
        Inl e \<Rightarrow> Return (None, Some e)
      | Inr l \<Rightarrow>
          (let r = \<lparr>Filename = (if p = '''' then ''stream'' else p), Signature = '''',
                     Infected = False, Raw = ''''\<rparr>
           in if HasPrefix l ''-1'' then Return (Some r, Some (ErrorString unknownStatusErr))
              else if HasPrefix l ''1'' \<or> HasPrefix l ''0'' then
                (let r1 = r\<lparr>Raw := l\<rparr>
                 in if HasPrefix l ''1'' then
                      (case sliceFrom l 2 of
                         Panic \<Rightarrow> Panic
                       | Return s \<Rightarrow> Return (Some (r1\<lparr>Signature := s, Infected := True\<rparr>), None))
                    else Return (Some r1, None))
              else Return (Some r, Some (ErrorString (invalidRespErr l)))))"

subsection \<open>Connection establishment\<close>

text \<open>
  The loop of \<open>dial\<close>: \<open>i\<close> is the loop counter, \<open>tmo\<close> the dialer's timeout, the last
  argument the current values of the results \<open>conn\<close> and \<open>err\<close>. The counter is a
  mathematical integer: the loop is that of the source for \<open>connRetries < maxInt\<close>, where
  \<open>i++\<close> cannot overflow.
\<close>

function dialLoop ::
  "env \<Rightarrow> Client \<Rightarrow> duration \<Rightarrow> int \<Rightarrow> trace \<Rightarrow> conn option \<times> error option
     \<Rightarrow> trace \<times> conn option \<times> error option" where
  "dialLoop ev c tmo i w res =
     (if i \<le> connRetries c then
        (let w1 = w @ [Dial (network c) (address c) tmo];
             res1 = (case netDial ev (nat i) of
                       Inl e \<Rightarrow> (None, Some e)
                     | Inr cn \<Rightarrow> (Some cn, None))
         in if isNetTimeout (snd res1)
            then dialLoop ev c tmo (i + 1) (w1 @ [Sleep (connSleep c)]) res1
            else (w1, res1))
      else (w, res))"
  by pat_completeness auto
termination
  by (relation "measure (\<lambda>(ev, c, tmo, i, w, res). nat (connRetries c + 1 - i))") auto

declare dialLoop.simps [simp del]

text \<open>The timeout of the dialer: the zero value unless \<open>connTimeout\<close> is positive.\<close>

definition dialerTimeout :: "Client \<Rightarrow> duration" where
  "dialerTimeout c = (if connTimeout c > 0 then connTimeout c else 0)"

definition dial :: "env \<Rightarrow> Client \<Rightarrow> trace \<Rightarrow> trace \<times> conn option \<times> error option" where
  "dial ev c w = dialLoop ev c (dialerTimeout c) 0 w (None, None)"

text \<open>
  The same loop with the counter of the machine: \<open>i++\<close> wraps around from \<open>maxInt\<close> to
  \<open>minInt\<close>, and the attempts are counted apart, by \<open>n\<close>. For \<open>connRetries = maxInt\<close> the
  test \<open>i <= c.connRetries\<close> never fails and the loop need not end, so it is a partial
  function: \<open>None\<close> stands for a call that does not return.
\<close>

definition minInt :: "env \<Rightarrow> int" where
  "minInt ev = - (2 ^ (intSize ev - 1))"

definition incr :: "env \<Rightarrow> int \<Rightarrow> int" where
  "incr ev i = (if i = maxInt ev then minInt ev else i + 1)"

partial_function (option) dialLoopMachine ::
  "env \<Rightarrow> Client \<Rightarrow> duration \<Rightarrow> int \<Rightarrow> nat \<Rightarrow> trace \<Rightarrow> conn option \<times> error option
     \<Rightarrow> (trace \<times> conn option \<times> error option) option" where
  "dialLoopMachine ev c tmo i n w res =
     (if i \<le> connRetries c then
        (if isNetTimeout (errOf (netDial ev n))
         then dialLoopMachine ev c tmo (incr ev i) (Suc n)
                (w @ [Dial (network c) (address c) tmo, Sleep (connSleep c)])
                (case netDial ev n of Inl e \<Rightarrow> (None, Some e) | Inr cn \<Rightarrow> (Some cn, None))
         else Some (w @ [Dial (network c) (address c) tmo],
                    case netDial ev n of Inl e \<Rightarrow> (None, Some e) | Inr cn \<Rightarrow> (Some cn, None)))
      else Some (w, res))"

definition dialMachine ::
  "env \<Rightarrow> Client \<Rightarrow> trace \<Rightarrow> (trace \<times> conn option \<times> error option) option" where
  "dialMachine ev c w = dialLoopMachine ev c (dialerTimeout c) 0 0 w (None, None)"

text \<open>
  For stating what \<open>dial\<close> does: whether the \<open>j\<close>-th attempt fails with a timeout, what
  an attempt's result is as the pair \<open>conn, err\<close>, and the trace of \<open>k\<close> attempts that timed
  out, each followed by the sleep.
\<close>

definition timedOut :: "env \<Rightarrow> nat \<Rightarrow> bool" where
  "timedOut ev j = isNetTimeout (errOf (netDial ev j))"

definition dialResult :: "env \<Rightarrow> nat \<Rightarrow> conn option \<times> error option" where
  "dialResult ev j = (case netDial ev j of Inl e \<Rightarrow> (None, Some e) | Inr cn \<Rightarrow> (Some cn, None))"

definition attempt :: "Client \<Rightarrow> event" where
  "attempt c = Dial (network c) (address c) (dialerTimeout c)"

definition timeouts :: "Client \<Rightarrow> nat \<Rightarrow> trace" where
  "timeouts c k = concat (replicate k [attempt c, Sleep (connSleep c)])"

subsection \<open>Scanning\<close>

text \<open>The length that the type switch of \<open>readerCmd\<close> computes.\<close>

datatype clen = Known int | StatFailed error | Unknown

fun contentLength :: "reader \<Rightarrow> clen" where
  "contentLength (BytesBuffer b) = Known (int (length b))"
| "contentLength (BytesReader b) = Known (int (length b))"
| "contentLength (StringsReader b) = Known (int (length b))"
| "contentLength (OSFile st b) =
     (case st of Inl e \<Rightarrow> StatFailed e | Inr fi \<Rightarrow> Known (Size fi))"
| "contentLength (OtherReader b) = Unknown"

text \<open>
  A scan returns the trace and either panics or returns the response and the error. After
  a successful dial the connection is closed on every exit (\<open>defer tc.Close()\<close>, which
  also runs when the function panics). A dial that returned neither a connection nor an
  error (possible only for a negative \<open>connRetries\<close>) makes the next use of the
  connection a nil dereference.
\<close>

type_synonym result = "trace \<times> (Response option \<times> error option) outcome"

definition readerCmd :: "env \<Rightarrow> Client \<Rightarrow> reader \<Rightarrow> trace \<Rightarrow> result" where
  "readerCmd ev c i w =
     (case dial ev c w of (w1, cn, err) \<Rightarrow>
        if err \<noteq> None then (w1, Return (None, err))
        else if cn = None then (w1, Panic)
        else
          (case contentLength i of
             Unknown \<Rightarrow> (w1 @ [Close], Return (None, Some (ErrorString noSizeErr)))
           | StatFailed e \<Rightarrow> (w1 @ [Close], Return (None, Some e))
           | Known n \<Rightarrow>
               (let w2 = w1 @ [SetDeadline (cmdTimeout c), SendLine (''stream/'' @ dec n)]
                in case connPrintfLine ev of
                     Some e \<Rightarrow> (w2 @ [Close], Return (None, Some e))
                   | None \<Rightarrow>
                       (let w3 = w2 @ [SetDeadline (cmdTimeout c), RecvLine]
                        in case connReadLine ev 0 of
                             Inl e \<Rightarrow> (w3 @ [Close], Return (None, Some e))
                           | Inr l \<Rightarrow>
                               if l \<noteq> ''OK''
                               then (w3 @ [Close],
                                     Return (None, Some (ErrorString (invalidRespErr l))))
                               else
                                 (let w4 = w3 @ [SetDeadline (cmdTimeout c),
                                                 SendPayload (unread i)]
                                  in case connCopy ev of
                                       Some e \<Rightarrow> (w4 @ [Close], Return (None, Some e))
                                     | None \<Rightarrow>
                                         (w4 @ [Flush, SetDeadline (cmdTimeout c), RecvLine,
                                                Close],
                                          processResponse (connReadLine ev 1) ''''))))))"

definition fileCmd :: "env \<Rightarrow> Client \<Rightarrow> string \<Rightarrow> trace \<Rightarrow> result" where
  "fileCmd ev c p w =
     (let st = fsStat ev p
      in if IsNotExist (errOf st) then (w, Return (None, errOf st))
         else if network c \<noteq> ''unix'' \<and> network c \<noteq> ''unixpacket'' then
           (case st of
              Inl e \<Rightarrow> (w, Panic)
            | Inr fi \<Rightarrow>
                if IsDir fi then (w, Return (None, Some (ErrorString tcpDirErr)))
                else
                  (case fsOpen ev p of
                     Inl e \<Rightarrow> (w, Return (None, Some e))
                   | Inr f \<Rightarrow> readerCmd ev c f w))
         else
           (case dial ev c w of (w1, cn, err) \<Rightarrow>
              if err \<noteq> None then (w1, Return (None, err))
              else if cn = None then (w1, Panic)
              else
                (let w2 = w1 @ [SetDeadline (cmdTimeout c), SendLine p]
                 in case connPrintfLine ev of
                      Some e \<Rightarrow> (w2 @ [Close], Return (None, Some e))
                    | None \<Rightarrow>
                        (w2 @ [SetDeadline (cmdTimeout c), RecvLine, Close],
                         processResponse (connReadLine ev 0) p))))"

definition Scan :: "env \<Rightarrow> Client \<Rightarrow> string \<Rightarrow> trace \<Rightarrow> result" where
  "Scan ev c p w = fileCmd ev c p w"

definition ScanReader :: "env \<Rightarrow> Client \<Rightarrow> reader \<Rightarrow> trace \<Rightarrow> result" where
  "ScanReader ev c i w = readerCmd ev c i w"

subsection \<open>Sample environments\<close>

text \<open>
  A file system with a directory, the EICAR test file, a path that cannot be examined and
  nothing else; a daemon that is reached at the third attempt, acknowledges a stream and
  reports the test signature. The clients are what \<open>NewClient\<close> builds for a TCP address,
  the first with two retries set.
\<close>

definition eicarInfo :: FileInfo where
  "eicarInfo = \<lparr>IsDir = False, Size = 68\<rparr>"

definition eicarVirus :: string where
  "eicarVirus = ''X5O!P%@AP[4'' @ [CHR 0x5C] @ ''PZX54(P^)7CC)7}$EICAR-STANDARD-ANTIVIRUS-TEST-FILE!$H+H*''"

definition sampleEnv :: env where
  "sampleEnv =
     \<lparr>fsStat = (\<lambda>p. if p = ''/srv/data'' then Inr \<lparr>IsDir = True, Size = 4096\<rparr>
                     else if p = ''/srv/data/eicar.txt'' then Inr eicarInfo
                     else if p = ''/root/private/x'' then Inl (PathError False ''permission denied'')
                     else Inl (PathError True ''no such file or directory'')),
      fsOpen = (\<lambda>p. if p = ''/srv/data/eicar.txt'' then Inr (OSFile (Inr eicarInfo) eicarVirus)
                     else if p = ''/root/private/x'' then Inl (PathError False ''permission denied'')
                     else Inl (PathError True ''no such file or directory'')),
      netDial = (\<lambda>k. if k < 2 then Inl (NetError True ''i/o timeout'') else Inr (Conn 1)),
      connPrintfLine = None,
      connReadLine = (\<lambda>k. if k = 0 then Inr ''OK'' else Inr ''1:EICAR-AV-Test''),
      connCopy = None,
      intSize = 64\<rparr>"

definition tcpClient :: Client where
  "tcpClient = \<lparr>network = ''tcp'', address = ''127.1.1.1:4010'', connTimeout = defaultTimeout,
                 connRetries = 2, connSleep = defaultSleep, cmdTimeout = defaultCmdTimeout\<rparr>"

subsection \<open>The earlier revision\<close>

text \<open>
  The earlier revision differs from the later one in what two functions return. Its
  \<open>processResponse\<close> has no final \<open>else\<close>: a line that starts with none of \<open>-1\<close>,
  \<open>1\<close>, \<open>0\<close> is returned as a response without an error. Its \<open>NewClient\<close> leaves
  \<open>cmdTimeout\<close> at the zero value (and tests the socket before the protocol name). Its
  \<open>fileCmd\<close> and \<open>readerCmd\<close> follow the same steps as the later ones, except that they
  arm the deadline once, after the dial and only for a positive \<open>cmdTimeout\<close>, and that
  the message for a wrong acknowledgement is spelled \<open>Invalid Server Response\<close>.
\<close>

definition processResponse_prev ::
  "error + string \<Rightarrow> string \<Rightarrow> (Response option \<times> error option) outcome" where
  "processResponse_prev rl p =
     (case rl of
        Inl e \<Rightarrow> Return (None, Some e)
      | Inr l \<Rightarrow>
          (let r = \<lparr>Filename = (if p = '''' then ''stream'' else p), Signature = '''',
                     Infected = False, Raw = ''''\<rparr>
           in if HasPrefix l ''-1'' then Return (Some r, Some (ErrorString ''Unknown status''))
              else if HasPrefix l ''1'' \<or> HasPrefix l ''0'' then
                (let r1 = r\<lparr>Raw := l\<rparr>
                 in if HasPrefix l ''1'' then
                      (case sliceFrom l 2 of
                         Panic \<Rightarrow> Panic
                       | Return s \<Rightarrow> Return (Some (r1\<lparr>Signature := s, Infected := True\<rparr>), None))
                    else Return (Some r1, None))
              else Return (Some r, None)))"

definition NewClient_prev :: "env \<Rightarrow> string \<Rightarrow> string \<Rightarrow> Client option \<times> error option" where
  "NewClient_prev ev network0 address0 =
     (let (nw, ad) = (if network0 = '''' \<and> address0 = ''''
                      then (''unix'', ''/var/lib/savdid/savdid.sock'')
                      else (network0, address0));
          err = (if nw = ''unix'' \<or> nw = ''unixpacket'' then errOf (fsStat ev ad) else None)
      in if (nw = ''unix'' \<or> nw = ''unixpacket'') \<and> IsNotExist err
         then (None, Some (ErrorString (''The unix socket: '' @ ad @ '' does not exist'')))
         else if \<not> supportedNetwork nw
         then (None, Some (ErrorString (''Protocol: '' @ nw @ '' is not supported'')))
         else (Some \<lparr>network = nw, address = ad, connTimeout = defaultTimeout,
                      connRetries = 0, connSleep = defaultSleep, cmdTimeout = 0\<rparr>, err))"

section \<open>Response decoding\<close>

lemma HasPrefix_1: "HasPrefix l ''1'' \<longleftrightarrow> (\<exists>t. l = CHR ''1'' # t)"
  by (cases l) (auto simp: HasPrefix_def)

lemma HasPrefix_m1: "HasPrefix l ''-1'' \<longleftrightarrow> (\<exists>t. l = CHR ''-'' # CHR ''1'' # t)"
  by (cases l; cases "tl l") (auto simp: HasPrefix_def)

text \<open>
  C1 (as amended). The signature of an infected verdict is the line without its first two
  bytes, the status digit and the byte that follows it: every line of at least two bytes
  that begins with \<open>1\<close> decodes to an infected response whose signature is the line with
  two bytes dropped and whose raw field is the line. The signature \<open>EICAR-AV-Test\<close> is
  therefore what the line \<open>1:EICAR-AV-Test\<close> decodes to.
\<close>

theorem processResponse_infected:
  assumes "HasPrefix l ''1''" and "2 \<le> length l"
  shows "processResponse (Inr l) p =
           Return (Some \<lparr>Filename = (if p = '''' then ''stream'' else p),
                          Signature = drop 2 l, Infected = True, Raw = l\<rparr>, None)"
  using assms
  by (auto simp: processResponse_def sliceFrom_def HasPrefix_1 HasPrefix_m1 Let_def)

theorem processResponse_infected_witness:
  "HasPrefix ''1:EICAR-AV-Test'' ''1'' \<and> 2 \<le> length ''1:EICAR-AV-Test'' \<and>
   processResponse (Inr ''1:EICAR-AV-Test'') ''/tmp/eicar.txt'' =
     Return (Some \<lparr>Filename = ''/tmp/eicar.txt'', Signature = ''EICAR-AV-Test'',
                    Infected = True, Raw = ''1:EICAR-AV-Test''\<rparr>, None)"
  using processResponse_infected [of "''1:EICAR-AV-Test''" "''/tmp/eicar.txt''"]
  by (simp add: HasPrefix_def)

text \<open>
  C1 (as stated) fails: the line \<open>1EICAR-AV-Test\<close> decodes to the signature
  \<open>ICAR-AV-Test\<close>, not \<open>EICAR-AV-Test\<close>.
\<close>

theorem processResponse_eicar_counterexample:
  "processResponse (Inr ''1EICAR-AV-Test'') '''' =
     Return (Some \<lparr>Filename = ''stream'', Signature = ''ICAR-AV-Test'', Infected = True,
                    Raw = ''1EICAR-AV-Test''\<rparr>, None) \<and>
   processResponse (Inr ''1EICAR-AV-Test'') '''' \<noteq>
     Return (Some \<lparr>Filename = ''stream'', Signature = ''EICAR-AV-Test'', Infected = True,
                    Raw = ''1EICAR-AV-Test''\<rparr>, None)"
  by (simp add: processResponse_def sliceFrom_def HasPrefix_def)

text \<open>
  The two revisions of \<open>processResponse\<close> agree on a failed read and on every line that
  begins with \<open>0\<close>, \<open>1\<close> or \<open>-1\<close>.
\<close>

lemma processResponse_prev_agrees:
  "processResponse_prev (Inl e) p = processResponse (Inl e) p"
  "HasPrefix l ''0'' \<or> HasPrefix l ''1'' \<or> HasPrefix l ''-1'' \<Longrightarrow>
     processResponse_prev (Inr l) p = processResponse (Inr l) p"
  by (auto simp: processResponse_prev_def processResponse_def unknownStatusErr_def Let_def)

text \<open>
  In the later revision a line that begins with none of \<open>0\<close>, \<open>1\<close>, \<open>-1\<close> is decoded
  to the error \<open>Invalid server response: \<close> followed by the line; the response returned
  beside the error holds the file name only.
\<close>

lemma processResponse_invalid:
  assumes "\<not> HasPrefix l ''0''" and "\<not> HasPrefix l ''1''" and "\<not> HasPrefix l ''-1''"
  shows "processResponse (Inr l) p =
           Return (Some \<lparr>Filename = (if p = '''' then ''stream'' else p), Signature = '''',
                          Infected = False, Raw = ''''\<rparr>,
                   Some (ErrorString (''Invalid server response: '' @ l)))"
  using assms by (simp add: processResponse_def invalidRespErr_def)

text \<open>
  In the earlier revision the chain of tests ends without an \<open>else\<close>: such a line leaves
  \<open>err\<close> nil, and the response, which holds the file name only, is returned as if the
  decode had succeeded.
\<close>

lemma processResponse_prev_unknown_line:
  assumes "\<not> HasPrefix l ''0''" and "\<not> HasPrefix l ''1''" and "\<not> HasPrefix l ''-1''"
  shows "processResponse_prev (Inr l) p =
           Return (Some \<lparr>Filename = (if p = '''' then ''stream'' else p), Signature = '''',
                          Infected = False, Raw = ''''\<rparr>, None)"
  using assms by (simp add: processResponse_prev_def)

text \<open>
  C2. On \<open>processResponse\<close> of the earlier revision the line \<open>2 what\<close>, which begins
  with none of \<open>0\<close>, \<open>1\<close>, \<open>-1\<close>, yields no error: it is returned as a response that
  is not infected.
\<close>

theorem processResponse_prev_no_error:
  "processResponse_prev (Inr ''2 what'') '''' =
     Return (Some \<lparr>Filename = ''stream'', Signature = '''', Infected = False, Raw = ''''\<rparr>,
             None)"
  by (simp add: processResponse_prev_def HasPrefix_def)

text \<open>What a decode without error returns.\<close>

lemma processResponse_success:
  assumes "processResponse rl p = Return (Some r, None)"
  shows "rl = Inr (Raw r) \<and>
         (Signature r \<noteq> '''' \<longrightarrow> Infected r) \<and>
         (Infected r \<longleftrightarrow> HasPrefix (Raw r) ''1'') \<and>
         (Infected r \<longrightarrow> Signature r = drop 2 (Raw r) \<and> 2 \<le> length (Raw r)) \<and>
         (Infected r \<and> Signature r = '''' \<longleftrightarrow>
            HasPrefix (Raw r) ''1'' \<and> length (Raw r) = 2)"
  using assms
  by (auto simp: processResponse_def sliceFrom_def Let_def
           split: sum.splits if_splits outcome.splits)

text \<open>
  C9. The line \<open>1\<close> makes the slice \<open>l[2:]\<close> run past the end of the line: the decode
  panics.
\<close>

theorem processResponse_short_line_panics:
  "processResponse (Inr ''1'') p = Panic"
  by (simp add: processResponse_def sliceFrom_def HasPrefix_def)

section \<open>Construction\<close>

lemma SetConnRetries_nonneg: "0 \<le> connRetries (SetConnRetries c s)"
  by (simp add: SetConnRetries_def)

text \<open>
  C4 (as amended). Every client that \<open>NewClient\<close> returns has a connect timeout of 15
  seconds, a retry delay of 1 second and no retries, in both revisions. Its command timeout
  is 60 seconds in the later revision and zero in the earlier one (durations in
  nanoseconds).
\<close>

theorem NewClient_defaults:
  "(NewClient ev nw ad = (Some c, err) \<longrightarrow>
      connTimeout c = 15000000000 \<and> cmdTimeout c = 60000000000 \<and>
      connSleep c = 1000000000 \<and> connRetries c = 0) \<and>
   (NewClient_prev ev nw ad = (Some c, err) \<longrightarrow>
      connTimeout c = 15000000000 \<and> cmdTimeout c = 0 \<and>
      connSleep c = 1000000000 \<and> connRetries c = 0)"
proof (rule conjI; rule impI)
  assume "NewClient ev nw ad = (Some c, err)"
  then show "connTimeout c = 15000000000 \<and> cmdTimeout c = 60000000000 \<and>
             connSleep c = 1000000000 \<and> connRetries c = 0"
    by (auto simp: NewClient_def Let_def defaultTimeout_def defaultCmdTimeout_def
          defaultSleep_def Second_def Minute_def split: if_splits prod.splits)
next
  assume "NewClient_prev ev nw ad = (Some c, err)"
  then show "connTimeout c = 15000000000 \<and> cmdTimeout c = 0 \<and>
             connSleep c = 1000000000 \<and> connRetries c = 0"
    by (auto simp: NewClient_prev_def Let_def defaultTimeout_def defaultSleep_def
          Second_def split: if_splits prod.splits)
qed

theorem NewClient_defaults_witness:
  "NewClient sampleEnv ''tcp'' ''127.1.1.1:4010'' = (Some (tcpClient\<lparr>connRetries := 0\<rparr>), None) \<and>
   connTimeout (tcpClient\<lparr>connRetries := 0\<rparr>) = 15000000000 \<and>
   cmdTimeout (tcpClient\<lparr>connRetries := 0\<rparr>) = 60000000000 \<and>
   connSleep (tcpClient\<lparr>connRetries := 0\<rparr>) = 1000000000 \<and>
   connRetries (tcpClient\<lparr>connRetries := 0\<rparr>) = 0 \<and>
   NewClient_prev sampleEnv ''tcp4'' ''192.168.1.126:4010'' =
     (Some \<lparr>network = ''tcp4'', address = ''192.168.1.126:4010'', connTimeout = 15000000000,
            connRetries = 0, connSleep = 1000000000, cmdTimeout = 0\<rparr>, None)"
proof -
  let ?c = "\<lparr>network = ''tcp4'', address = ''192.168.1.126:4010'',
             connTimeout = defaultTimeout, connRetries = 0, connSleep = defaultSleep,
             cmdTimeout = 0\<rparr>"
  have h: "NewClient sampleEnv ''tcp'' ''127.1.1.1:4010'' =
             (Some (tcpClient\<lparr>connRetries := 0\<rparr>), None)"
    by (simp add: NewClient_def supportedNetwork_def tcpClient_def)
  have g: "NewClient_prev sampleEnv ''tcp4'' ''192.168.1.126:4010'' = (Some ?c, None)"
    by (simp add: NewClient_prev_def supportedNetwork_def)
  from NewClient_defaults [of sampleEnv "''tcp''" "''127.1.1.1:4010''"
         "tcpClient\<lparr>connRetries := 0\<rparr>" None] h
  have a: "connTimeout (tcpClient\<lparr>connRetries := 0\<rparr>) = 15000000000 \<and>
           cmdTimeout (tcpClient\<lparr>connRetries := 0\<rparr>) = 60000000000 \<and>
           connSleep (tcpClient\<lparr>connRetries := 0\<rparr>) = 1000000000 \<and>
           connRetries (tcpClient\<lparr>connRetries := 0\<rparr>) = 0"
    by blast
  from NewClient_defaults [of sampleEnv "''tcp4''" "''192.168.1.126:4010''" ?c None] g
  have "connTimeout ?c = 15000000000 \<and> cmdTimeout ?c = 0 \<and> connSleep ?c = 1000000000"
    by blast
  then have "?c = \<lparr>network = ''tcp4'', address = ''192.168.1.126:4010'',
                   connTimeout = 15000000000, connRetries = 0, connSleep = 1000000000,
                   cmdTimeout = 0\<rparr>"
    by simp
  with g h a show ?thesis by simp
qed

text \<open>
  C4 (as stated) fails: the client that the earlier revision's \<open>NewClient\<close> returns for a
  TCP address has a command timeout of zero, not 60 seconds.
\<close>

theorem NewClient_prev_cmdTimeout_counterexample:
  "NewClient_prev sampleEnv ''tcp'' ''127.1.1.1:4010'' =
     (Some \<lparr>network = ''tcp'', address = ''127.1.1.1:4010'', connTimeout = 15000000000,
            connRetries = 0, connSleep = 1000000000, cmdTimeout = 0\<rparr>, None) \<and>
   cmdTimeout \<lparr>network = ''tcp'', address = ''127.1.1.1:4010'', connTimeout = 15000000000,
              connRetries = 0, connSleep = 1000000000, cmdTimeout = 0\<rparr> \<noteq> 60000000000"
  by (simp add: NewClient_prev_def supportedNetwork_def defaultTimeout_def defaultSleep_def
        Second_def)

section \<open>Connection establishment\<close>

lemma snd_dialResult: "isNetTimeout (snd (dialResult ev j)) = timedOut ev j"
  by (simp add: dialResult_def timedOut_def split: sum.splits)

text \<open>One iteration of the loop.\<close>

lemma dialLoop_step:
  "dialLoop ev c tmo i w res =
     (if i \<le> connRetries c then
        (if timedOut ev (nat i)
         then dialLoop ev c tmo (i + 1)
                (w @ [Dial (network c) (address c) tmo, Sleep (connSleep c)])
                (dialResult ev (nat i))
         else (w @ [Dial (network c) (address c) tmo], dialResult ev (nat i)))
      else (w, res))"
  by (subst dialLoop.simps) (simp add: Let_def snd_dialResult [symmetric] dialResult_def)

lemma attempts_append: "attempts (u @ v) = attempts u + attempts v"
  by (simp add: attempts_def)

lemma dialLoop_attempts:
  "attempts (fst (dialLoop ev c tmo i w res)) \<le> attempts w + nat (connRetries c + 1 - i)"
proof (induction ev c tmo i w res rule: dialLoop.induct)
  case (1 ev c tmo i w res)
  show ?case
  proof (cases "i \<le> connRetries c")
    case False
    then show ?thesis by (subst dialLoop_step) simp
  next
    case le: True
    show ?thesis
    proof (cases "timedOut ev (nat i)")
      case False
      with le show ?thesis
        by (subst dialLoop_step) (simp add: attempts_append, simp add: attempts_def)
    next
      case True
      have "attempts (fst (dialLoop ev c tmo (i + 1)
               ((w @ [Dial (network c) (address c) tmo]) @ [Sleep (connSleep c)])
               (dialResult ev (nat i))))
            \<le> attempts ((w @ [Dial (network c) (address c) tmo]) @ [Sleep (connSleep c)])
                + nat (connRetries c + 1 - (i + 1))"
      proof -
        have tm: "isNetTimeout (snd (case netDial ev (nat i) of
                     Inl e \<Rightarrow> (None, Some e) | Inr cn \<Rightarrow> (Some cn, None)))"
          using True by (cases "netDial ev (nat i)") (simp_all add: timedOut_def)
        show ?thesis
          using "1.IH" [OF le refl refl tm] by (simp add: dialResult_def)
      qed
      moreover have "attempts ((w @ [Dial (network c) (address c) tmo]) @ [Sleep (connSleep c)])
            = attempts w + 1"
        by (simp add: attempts_def)
      ultimately show ?thesis using le True
        by (subst dialLoop_step) simp
    qed
  qed
qed

text \<open>The loop writes nothing to a connection.\<close>

lemma dialLoop_sent: "sent (fst (dialLoop ev c tmo i w res)) = sent w"
proof (induction "nat (connRetries c + 1 - i)" arbitrary: i w res)
  case 0
  then have "\<not> i \<le> connRetries c" by simp
  then show ?case by (subst dialLoop_step) simp
next
  case (Suc d)
  then have le: "i \<le> connRetries c" by simp
  have d: "d = nat (connRetries c + 1 - (i + 1))" using Suc.hyps(2) by simp
  have "sent (fst (dialLoop ev c tmo (i + 1)
                (w @ [Dial (network c) (address c) tmo, Sleep (connSleep c)])
                (dialResult ev (nat i))))
        = sent (w @ [Dial (network c) (address c) tmo, Sleep (connSleep c)])"
    by (rule Suc.hyps(1) [OF d])
  then show ?case using le
    by (subst dialLoop_step) (simp add: sent_def)
qed

lemma dial_sent: "sent (fst (dial ev c w)) = sent w"
  by (simp add: dial_def dialLoop_sent)

lemma dialLoop_first_answer:
  "0 \<le> i \<Longrightarrow> k - nat i = d \<Longrightarrow> nat i \<le> k \<Longrightarrow> int k \<le> connRetries c \<Longrightarrow>
   (\<forall>j. nat i \<le> j \<and> j < k \<longrightarrow> timedOut ev j) \<Longrightarrow> \<not> timedOut ev k \<Longrightarrow>
   dialLoop ev c tmo i w res =
     (w @ concat (replicate d [Dial (network c) (address c) tmo, Sleep (connSleep c)])
        @ [Dial (network c) (address c) tmo], dialResult ev k)"
proof (induction d arbitrary: i w res)
  case 0
  then have ik: "nat i = k" by simp
  with 0 have "i \<le> connRetries c" by linarith
  with 0 ik show ?case by (subst dialLoop_step) simp
next
  case (Suc d)
  then have lt: "nat i < k" by simp
  with Suc.prems have le: "i \<le> connRetries c" by linarith
  from lt Suc.prems have tm: "timedOut ev (nat i)" by simp
  have nxt: "nat (i + 1) = Suc (nat i)" using Suc.prems(1) by simp
  have "dialLoop ev c tmo (i + 1)
          (w @ [Dial (network c) (address c) tmo, Sleep (connSleep c)]) (dialResult ev (nat i)) =
        ((w @ [Dial (network c) (address c) tmo, Sleep (connSleep c)])
           @ concat (replicate d [Dial (network c) (address c) tmo, Sleep (connSleep c)])
           @ [Dial (network c) (address c) tmo], dialResult ev k)"
  proof (rule Suc.IH)
    show "0 \<le> i + 1" using Suc.prems(1) by simp
    show "k - nat (i + 1) = d" using Suc.prems(2) nxt by simp
    show "nat (i + 1) \<le> k" using lt nxt by simp
    show "int k \<le> connRetries c" by (rule Suc.prems(4))
    show "\<forall>j. nat (i + 1) \<le> j \<and> j < k \<longrightarrow> timedOut ev j"
      using Suc.prems(5) nxt by simp
    show "\<not> timedOut ev k" by (rule Suc.prems(6))
  qed
  with le tm show ?case by (subst dialLoop_step) simp
qed

lemma dialLoop_all_timeouts:
  "0 \<le> i \<Longrightarrow> i \<le> connRetries c \<Longrightarrow> nat (connRetries c - i) = d \<Longrightarrow>
   (\<forall>j. nat i \<le> j \<and> j \<le> nat (connRetries c) \<longrightarrow> timedOut ev j) \<Longrightarrow>
   dialLoop ev c tmo i w res =
     (w @ concat (replicate (Suc d) [Dial (network c) (address c) tmo, Sleep (connSleep c)]),
      dialResult ev (nat (connRetries c)))"
proof (induction d arbitrary: i w res)
  case 0
  then have eq: "i = connRetries c" by simp
  from 0 eq have tm: "timedOut ev (nat i)" by simp
  have stop: "\<not> i + 1 \<le> connRetries c" using eq by simp
  have "dialLoop ev c tmo (i + 1)
          (w @ [Dial (network c) (address c) tmo, Sleep (connSleep c)]) (dialResult ev (nat i)) =
        (w @ [Dial (network c) (address c) tmo, Sleep (connSleep c)], dialResult ev (nat i))"
    using stop by (subst dialLoop_step) simp
  with 0 tm eq show ?case by (subst dialLoop_step) simp
next
  case (Suc d)
  then have lt: "i < connRetries c" by simp
  from Suc.prems have tm: "timedOut ev (nat i)" by simp
  have nxt: "nat (i + 1) = Suc (nat i)" using Suc.prems(1) by simp
  have "dialLoop ev c tmo (i + 1)
          (w @ [Dial (network c) (address c) tmo, Sleep (connSleep c)]) (dialResult ev (nat i)) =
        ((w @ [Dial (network c) (address c) tmo, Sleep (connSleep c)])
           @ concat (replicate (Suc d) [Dial (network c) (address c) tmo, Sleep (connSleep c)]),
         dialResult ev (nat (connRetries c)))"
  proof (rule Suc.IH)
    show "0 \<le> i + 1" using Suc.prems(1) by simp
    show "i + 1 \<le> connRetries c" using lt by simp
    show "nat (connRetries c - (i + 1)) = d" using Suc.prems(3) by simp
    show "\<forall>j. nat (i + 1) \<le> j \<and> j \<le> nat (connRetries c) \<longrightarrow> timedOut ev j"
      using Suc.prems(4) nxt by simp
  qed
  with lt tm show ?case by (subst dialLoop_step) simp
qed

text \<open>
  Below \<open>maxInt\<close> the loop with the machine counter returns, and returns what the loop
  with the mathematical counter returns.
\<close>

lemma dialLoopMachine_eq:
  "0 \<le> i \<Longrightarrow> connRetries c < maxInt ev \<Longrightarrow>
   dialLoopMachine ev c tmo i (nat i) w res = Some (dialLoop ev c tmo i w res)"
proof (induction ev c tmo i w res rule: dialLoop.induct)
  case (1 ev c tmo i w res)
  show ?case
  proof (cases "i \<le> connRetries c")
    case False
    then show ?thesis
      by (subst dialLoopMachine.simps, subst dialLoop_step) simp
  next
    case le: True
    show ?thesis
    proof (cases "timedOut ev (nat i)")
      case False
      with le show ?thesis
        by (subst dialLoopMachine.simps, subst dialLoop_step)
           (simp add: timedOut_def dialResult_def)
    next
      case True
      have tm: "isNetTimeout (snd (case netDial ev (nat i) of
                   Inl e \<Rightarrow> (None, Some e) | Inr cn \<Rightarrow> (Some cn, None)))"
        using True by (cases "netDial ev (nat i)") (simp_all add: timedOut_def)
      have inc: "incr ev i = i + 1"
        using le "1.prems"(2) by (simp add: incr_def)
      have nx: "nat (i + 1) = Suc (nat i)"
        using "1.prems"(1) by simp
      have "dialLoopMachine ev c tmo (i + 1) (nat (i + 1))
              ((w @ [Dial (network c) (address c) tmo]) @ [Sleep (connSleep c)])
              (case netDial ev (nat i) of Inl e \<Rightarrow> (None, Some e) | Inr cn \<Rightarrow> (Some cn, None)) =
            Some (dialLoop ev c tmo (i + 1)
              ((w @ [Dial (network c) (address c) tmo]) @ [Sleep (connSleep c)])
              (case netDial ev (nat i) of Inl e \<Rightarrow> (None, Some e) | Inr cn \<Rightarrow> (Some cn, None)))"
        using "1.IH" [OF le refl refl tm] "1.prems" by simp
      with le True inc nx show ?thesis
        by (subst dialLoopMachine.simps, subst dialLoop_step)
           (simp add: timedOut_def dialResult_def)
    qed
  qed
qed

text \<open>
  At \<open>connRetries = maxInt\<close> the bound is missed: when every attempt times out, the loop
  with the machine counter never returns.
\<close>

lemma minInt_le_maxInt: "minInt ev \<le> maxInt ev"
proof -
  have "(1::int) \<le> 2 ^ (intSize ev - 1)" by simp
  then show ?thesis unfolding minInt_def maxInt_def by linarith
qed

lemma incr_le_maxInt: "i \<le> maxInt ev \<Longrightarrow> incr ev i \<le> maxInt ev"
  using minInt_le_maxInt [of ev] by (simp add: incr_def)

lemma dialLoopMachine_returns_only_if:
  assumes "dialLoopMachine ev c tmo i n w res = Some y"
  shows "\<not> (connRetries c = maxInt ev \<and> i \<le> maxInt ev \<and> (\<forall>j\<ge>n. timedOut ev j))"
proof (rule dialLoopMachine.raw_induct
    [where P = "\<lambda>ev c tmo i n w res y.
                  \<not> (connRetries c = maxInt ev \<and> i \<le> maxInt ev \<and> (\<forall>j\<ge>n. timedOut ev j))",
     OF _ assms])
  fix f :: "env \<Rightarrow> Client \<Rightarrow> duration \<Rightarrow> int \<Rightarrow> nat \<Rightarrow> trace \<Rightarrow> conn option \<times> error option
              \<Rightarrow> (trace \<times> conn option \<times> error option) option"
  fix ev c tmo i n w res y
  assume IH: "\<And>ev c tmo i n w res y. f ev c tmo i n w res = Some y \<Longrightarrow>
                \<not> (connRetries c = maxInt ev \<and> i \<le> maxInt ev \<and> (\<forall>j\<ge>n. timedOut ev j))"
  assume body: "(if i \<le> connRetries c
      then if isNetTimeout (errOf (netDial ev n))
           then f ev c tmo (incr ev i) (Suc n)
                 (w @ [Dial (network c) (address c) tmo, Sleep (connSleep c)])
                 (case netDial ev n of Inl e \<Rightarrow> (None, Some e) | Inr cn \<Rightarrow> (Some cn, None))
           else Some (w @ [Dial (network c) (address c) tmo],
                      case netDial ev n of Inl e \<Rightarrow> (None, Some e) | Inr cn \<Rightarrow> (Some cn, None))
      else Some (w, res)) = Some y"
  show "\<not> (connRetries c = maxInt ev \<and> i \<le> maxInt ev \<and> (\<forall>j\<ge>n. timedOut ev j))"
  proof
    assume pre: "connRetries c = maxInt ev \<and> i \<le> maxInt ev \<and> (\<forall>j\<ge>n. timedOut ev j)"
    then have tm: "isNetTimeout (errOf (netDial ev n))"
      by (simp add: timedOut_def)
    from pre have le: "i \<le> connRetries c" by simp
    from body le tm
    have "f ev c tmo (incr ev i) (Suc n)
            (w @ [Dial (network c) (address c) tmo, Sleep (connSleep c)])
            (case netDial ev n of Inl e \<Rightarrow> (None, Some e) | Inr cn \<Rightarrow> (Some cn, None)) = Some y"
      by simp
    from IH [OF this] pre incr_le_maxInt [of i ev] show False
      by auto
  qed
qed

lemma dialMachine_never_returns:
  assumes "connRetries c = maxInt ev" and "\<forall>j. timedOut ev j"
  shows "dialMachine ev c w = None"
proof (cases "dialMachine ev c w")
  case None
  then show ?thesis .
next
  case (Some y)
  then have "dialLoopMachine ev c (dialerTimeout c) 0 0 w (None, None) = Some y"
    by (simp add: dialMachine_def)
  from dialLoopMachine_returns_only_if [OF this] assms show ?thesis
    by (simp add: maxInt_def)
qed

text \<open>
  C5. With \<open>connRetries \<ge> 0\<close> (what \<open>NewClient\<close> and \<open>SetConnRetries\<close> establish) and
  \<open>connRetries\<close> below the largest machine integer, the loop with the machine counter
  returns, with the result of \<open>dial\<close>, and \<open>dial\<close> makes at most \<open>connRetries + 1\<close>
  attempts. When the attempts before the \<open>k\<close>-th time out
  and the \<open>k\<close>-th does not, each timed-out attempt is followed by a sleep of \<open>connSleep\<close>
  and the next attempt, and the result of the \<open>k\<close>-th attempt (a connection, or an error
  that is not a timeout) is returned with no further attempt. When all \<open>connRetries + 1\<close>
  attempts time out, the error of the last one is returned.
\<close>

theorem dial_retries:
  assumes "0 \<le> connRetries c" and "connRetries c < maxInt ev"
  shows "dialMachine ev c w = Some (dial ev c w) \<and>
         attempts (fst (dial ev c w)) \<le> attempts w + (nat (connRetries c) + 1) \<and>
         (\<forall>k. int k \<le> connRetries c \<and> (\<forall>j<k. timedOut ev j) \<and> \<not> timedOut ev k \<longrightarrow>
              dial ev c w = (w @ timeouts c k @ [attempt c], dialResult ev k)) \<and>
         ((\<forall>j. int j \<le> connRetries c \<longrightarrow> timedOut ev j) \<longrightarrow>
              dial ev c w = (w @ timeouts c (nat (connRetries c) + 1),
                            dialResult ev (nat (connRetries c))))"
proof (intro conjI allI impI)
  show "dialMachine ev c w = Some (dial ev c w)"
    using dialLoopMachine_eq [of 0 c ev "dialerTimeout c" w "(None, None)"] assms(2)
    by (simp add: dialMachine_def dial_def)
next
  have "attempts (fst (dial ev c w)) \<le> attempts w + nat (connRetries c + 1 - 0)"
    unfolding dial_def by (rule dialLoop_attempts)
  then show "attempts (fst (dial ev c w)) \<le> attempts w + (nat (connRetries c) + 1)"
    using assms by simp
next
  fix k
  assume h: "int k \<le> connRetries c \<and> (\<forall>j<k. timedOut ev j) \<and> \<not> timedOut ev k"
  have "dialLoop ev c (dialerTimeout c) 0 w (None, None) =
          (w @ concat (replicate k [Dial (network c) (address c) (dialerTimeout c),
                                    Sleep (connSleep c)])
             @ [Dial (network c) (address c) (dialerTimeout c)], dialResult ev k)"
    using h by (intro dialLoop_first_answer) simp_all
  then show "dial ev c w = (w @ timeouts c k @ [attempt c], dialResult ev k)"
    by (simp add: dial_def timeouts_def attempt_def)
next
  assume h: "\<forall>j. int j \<le> connRetries c \<longrightarrow> timedOut ev j"
  have "dialLoop ev c (dialerTimeout c) 0 w (None, None) =
          (w @ concat (replicate (Suc (nat (connRetries c)))
                         [Dial (network c) (address c) (dialerTimeout c), Sleep (connSleep c)]),
           dialResult ev (nat (connRetries c)))"
    using h assms by (intro dialLoop_all_timeouts) simp_all
  then show "dial ev c w = (w @ timeouts c (nat (connRetries c) + 1),
                            dialResult ev (nat (connRetries c)))"
    by (simp add: dial_def timeouts_def attempt_def)
qed

theorem dial_retries_witness:
  "0 \<le> connRetries tcpClient \<and> connRetries tcpClient < maxInt sampleEnv \<and>
   connRetries tcpClient <
     maxInt (sampleEnv\<lparr>netDial := \<lambda>k. Inl (NetError True ''i/o timeout'')\<rparr>) \<and>
   attempts (fst (dial sampleEnv tcpClient [])) \<le> 3 \<and>
   dialMachine sampleEnv tcpClient [] = Some (dial sampleEnv tcpClient []) \<and>
   dial sampleEnv tcpClient [] =
     ([Dial ''tcp'' ''127.1.1.1:4010'' 15000000000, Sleep 1000000000,
       Dial ''tcp'' ''127.1.1.1:4010'' 15000000000, Sleep 1000000000,
       Dial ''tcp'' ''127.1.1.1:4010'' 15000000000], Some (Conn 1), None) \<and>
   dial (sampleEnv\<lparr>netDial := \<lambda>k. Inl (NetError True ''i/o timeout'')\<rparr>) tcpClient [] =
     ([Dial ''tcp'' ''127.1.1.1:4010'' 15000000000, Sleep 1000000000,
       Dial ''tcp'' ''127.1.1.1:4010'' 15000000000, Sleep 1000000000,
       Dial ''tcp'' ''127.1.1.1:4010'' 15000000000, Sleep 1000000000],
      None, Some (NetError True ''i/o timeout''))"
proof -
  let ?ev = "sampleEnv\<lparr>netDial := \<lambda>k. Inl (NetError True ''i/o timeout'')\<rparr>"
  have r: "0 \<le> connRetries tcpClient"
    by (simp add: tcpClient_def)
  have m: "connRetries tcpClient < maxInt sampleEnv"
    by (simp add: tcpClient_def maxInt_def sampleEnv_def)
  have m': "connRetries tcpClient < maxInt ?ev"
    by (simp add: tcpClient_def maxInt_def sampleEnv_def)
  note t = dial_retries [OF r m, of "[]"]
  note t' = dial_retries [OF r m', of "[]"]
  have a: "attempts (fst (dial sampleEnv tcpClient [])) \<le> 3"
    using t by (simp add: tcpClient_def attempts_def)
  have "int 2 \<le> connRetries tcpClient \<and> (\<forall>j<2. timedOut sampleEnv j) \<and> \<not> timedOut sampleEnv 2"
    by (simp add: tcpClient_def timedOut_def sampleEnv_def)
  with t
  have "dial sampleEnv tcpClient [] =
          ([] @ timeouts tcpClient 2 @ [attempt tcpClient], dialResult sampleEnv 2)"
    by blast
  then have b: "dial sampleEnv tcpClient [] =
     ([Dial ''tcp'' ''127.1.1.1:4010'' 15000000000, Sleep 1000000000,
       Dial ''tcp'' ''127.1.1.1:4010'' 15000000000, Sleep 1000000000,
       Dial ''tcp'' ''127.1.1.1:4010'' 15000000000], Some (Conn 1), None)"
    by (simp add: timeouts_def attempt_def dialerTimeout_def dialResult_def tcpClient_def
          sampleEnv_def defaultTimeout_def defaultSleep_def Second_def numeral_2_eq_2)
  have "\<forall>j. int j \<le> connRetries tcpClient \<longrightarrow> timedOut ?ev j"
    by (simp add: timedOut_def)
  with t'
  have "dial ?ev tcpClient [] =
          ([] @ timeouts tcpClient (nat (connRetries tcpClient) + 1),
           dialResult ?ev (nat (connRetries tcpClient)))"
    by blast
  then have c: "dial ?ev tcpClient [] =
     ([Dial ''tcp'' ''127.1.1.1:4010'' 15000000000, Sleep 1000000000,
       Dial ''tcp'' ''127.1.1.1:4010'' 15000000000, Sleep 1000000000,
       Dial ''tcp'' ''127.1.1.1:4010'' 15000000000, Sleep 1000000000],
      None, Some (NetError True ''i/o timeout''))"
    by (simp add: timeouts_def attempt_def dialerTimeout_def dialResult_def tcpClient_def
          defaultTimeout_def defaultSleep_def Second_def numeral_3_eq_3)
  have d: "dialMachine sampleEnv tcpClient [] = Some (dial sampleEnv tcpClient [])"
    using t by blast
  from r m m' a b c d show ?thesis by blast
qed

section \<open>Scanning\<close>

text \<open>
  C6. A client whose network is neither \<open>unix\<close> nor \<open>unixpacket\<close> rejects a path that
  exists and is a directory with the error
  \<open>Scanning directories not supported on a TCP connection\<close>; the trace is unchanged, so
  nothing is dialled, sent or received.
\<close>

theorem Scan_tcp_directory:
  assumes "network c \<noteq> ''unix''" and "network c \<noteq> ''unixpacket''"
    and "fsStat ev p = Inr fi" and "IsDir fi"
  shows "Scan ev c p w =
           (w, Return (None, Some (ErrorString
                 ''Scanning directories not supported on a TCP connection'')))"
  using assms by (simp add: Scan_def fileCmd_def tcpDirErr_def)

theorem Scan_tcp_directory_witness:
  "network tcpClient \<noteq> ''unix'' \<and> network tcpClient \<noteq> ''unixpacket'' \<and>
   fsStat sampleEnv ''/srv/data'' = Inr \<lparr>IsDir = True, Size = 4096\<rparr> \<and>
   IsDir \<lparr>IsDir = True, Size = 4096\<rparr> \<and>
   Scan sampleEnv tcpClient ''/srv/data'' [] =
     ([], Return (None, Some (ErrorString
            ''Scanning directories not supported on a TCP connection'')))"
proof -
  have n: "network tcpClient \<noteq> ''unix''" "network tcpClient \<noteq> ''unixpacket''"
    by (simp_all add: tcpClient_def)
  have s: "fsStat sampleEnv ''/srv/data'' = Inr \<lparr>IsDir = True, Size = 4096\<rparr>"
    by (simp add: sampleEnv_def)
  have d: "IsDir \<lparr>IsDir = True, Size = 4096\<rparr>"
    by simp
  from Scan_tcp_directory [OF n s d, of "[]"] n s d show ?thesis
    by simp
qed

text \<open>
  A \<open>Stat\<close> error other than not-found on a client that is not on a unix socket.
\<close>

lemma fileCmd_stat_error_panics:
  assumes "network c \<noteq> ''unix''" and "network c \<noteq> ''unixpacket''"
    and "fsStat ev p = Inl e" and "\<not> IsNotExist (Some e)"
  shows "fileCmd ev c p w = (w, Panic)"
  using assms by (simp add: fileCmd_def)

text \<open>
  C10. When \<open>os.Stat\<close> fails with an error other than not-found, \<open>fileCmd\<close> goes on with a
  nil \<open>FileInfo\<close>; for a client that is not on a unix socket the call \<open>stat.IsDir()\<close>
  then panics. Here the path cannot be examined for lack of permission.
\<close>

theorem Scan_permission_denied_panics:
  "Scan sampleEnv tcpClient ''/root/private/x'' [] = ([], Panic)"
  by (simp add: Scan_def fileCmd_def sampleEnv_def tcpClient_def)

text \<open>What \<open>readerCmd\<close> does once the dial has succeeded and the length is known.\<close>

lemma readerCmd_connected:
  assumes "dial ev c w = (w1, Some cn, None)" and "contentLength i = Known n"
  shows "readerCmd ev c i w =
     (let w2 = w1 @ [SetDeadline (cmdTimeout c), SendLine (''stream/'' @ dec n)]
      in case connPrintfLine ev of
           Some e \<Rightarrow> (w2 @ [Close], Return (None, Some e))
         | None \<Rightarrow>
             (case connReadLine ev 0 of
                Inl e \<Rightarrow> (w2 @ [SetDeadline (cmdTimeout c), RecvLine, Close],
                           Return (None, Some e))
              | Inr l \<Rightarrow>
                  if l \<noteq> ''OK''
                  then (w2 @ [SetDeadline (cmdTimeout c), RecvLine, Close],
                        Return (None, Some (ErrorString (''Invalid server response: '' @ l))))
                  else
                    (case connCopy ev of
                       Some e \<Rightarrow>
                         (w2 @ [SetDeadline (cmdTimeout c), RecvLine,
                                SetDeadline (cmdTimeout c), SendPayload (unread i), Close],
                          Return (None, Some e))
                     | None \<Rightarrow>
                         (w2 @ [SetDeadline (cmdTimeout c), RecvLine,
                                SetDeadline (cmdTimeout c), SendPayload (unread i),
                                Flush, SetDeadline (cmdTimeout c), RecvLine, Close],
                          processResponse (connReadLine ev 1) ''''))))"
  using assms
  by (simp add: readerCmd_def Let_def invalidRespErr_def split: option.splits sum.splits)

lemma readerCmd_not_connected:
  assumes "dial ev c w = (w1, cn, err)" and "err \<noteq> None \<or> cn = None"
  shows "fst (readerCmd ev c i w) = w1"
  using assms by (auto simp: readerCmd_def)

text \<open>
  C7. For a source whose length \<open>n\<close> the type switch determines, whatever \<open>ScanReader\<close>
  writes to the connection is the request line \<open>stream/n\<close>, or that line followed by
  the payload. Once the dial has succeeded the request line is the first thing done on
  the connection after arming the deadline. If the request line was written and the line
  then read is not \<open>OK\<close>, the call fails with \<open>Invalid server response: \<close> followed by
  that line, and the connection is closed with no payload written.
\<close>

theorem ScanReader_request_line:
  assumes "contentLength i = Known n"
  shows "(sent (fst (ScanReader ev c i w)) = sent w \<or>
          sent (fst (ScanReader ev c i w)) = sent w @ [SendLine (''stream/'' @ dec n)] \<or>
          sent (fst (ScanReader ev c i w)) =
            sent w @ [SendLine (''stream/'' @ dec n), SendPayload (unread i)]) \<and>
         (\<forall>w1 cn. dial ev c w = (w1, Some cn, None) \<longrightarrow>
            (\<exists>rest. fst (ScanReader ev c i w) =
               w1 @ [SetDeadline (cmdTimeout c), SendLine (''stream/'' @ dec n)] @ rest)) \<and>
         (\<forall>w1 cn l. dial ev c w = (w1, Some cn, None) \<and> connPrintfLine ev = None \<and>
               connReadLine ev 0 = Inr l \<and> l \<noteq> ''OK'' \<longrightarrow>
            ScanReader ev c i w =
              (w1 @ [SetDeadline (cmdTimeout c), SendLine (''stream/'' @ dec n),
                     SetDeadline (cmdTimeout c), RecvLine, Close],
               Return (None, Some (ErrorString (''Invalid server response: '' @ l)))))"
proof (intro conjI allI impI)
  obtain w1 cn err where d: "dial ev c w = (w1, cn, err)"
    by (cases "dial ev c w") auto
  have s1: "sent w1 = sent w"
    using dial_sent [of ev c w] d by simp
  show "sent (fst (ScanReader ev c i w)) = sent w \<or>
        sent (fst (ScanReader ev c i w)) = sent w @ [SendLine (''stream/'' @ dec n)] \<or>
        sent (fst (ScanReader ev c i w)) =
          sent w @ [SendLine (''stream/'' @ dec n), SendPayload (unread i)]"
  proof (cases "err \<noteq> None \<or> cn = None")
    case True
    from readerCmd_not_connected [OF d True] s1 show ?thesis
      by (simp add: ScanReader_def)
  next
    case False
    then obtain k where "dial ev c w = (w1, Some k, None)"
      using d by auto
    from readerCmd_connected [OF this assms] s1 show ?thesis
      by (simp add: ScanReader_def Let_def sent_def split: option.splits sum.splits)
  qed
next
  fix w1 cn
  assume "dial ev c w = (w1, Some cn, None)"
  from readerCmd_connected [OF this assms]
  show "\<exists>rest. fst (ScanReader ev c i w) =
          w1 @ [SetDeadline (cmdTimeout c), SendLine (''stream/'' @ dec n)] @ rest"
    by (simp add: ScanReader_def Let_def split: option.splits sum.splits)
next
  fix w1 cn l
  assume h: "dial ev c w = (w1, Some cn, None) \<and> connPrintfLine ev = None \<and>
             connReadLine ev 0 = Inr l \<and> l \<noteq> ''OK''"
  then have d: "dial ev c w = (w1, Some cn, None)" by simp
  from readerCmd_connected [OF d assms] h
  show "ScanReader ev c i w =
          (w1 @ [SetDeadline (cmdTimeout c), SendLine (''stream/'' @ dec n),
                 SetDeadline (cmdTimeout c), RecvLine, Close],
           Return (None, Some (ErrorString (''Invalid server response: '' @ l))))"
    by (simp add: ScanReader_def Let_def)
qed

lemma dec_68: "dec 68 = ''68''"
  by (simp add: dec_def decNat.simps digitChar_def)

lemma length_eicarVirus: "length eicarVirus = 68"
  by (simp add: eicarVirus_def)

lemma dial_sample:
  "dial sampleEnv tcpClient [] =
     ([Dial ''tcp'' ''127.1.1.1:4010'' 15000000000, Sleep 1000000000,
       Dial ''tcp'' ''127.1.1.1:4010'' 15000000000, Sleep 1000000000,
       Dial ''tcp'' ''127.1.1.1:4010'' 15000000000], Some (Conn 1), None)"
proof -
  have "dialLoop sampleEnv tcpClient (dialerTimeout tcpClient) 0 [] (None, None) =
          ([] @ concat (replicate 2 [Dial (network tcpClient) (address tcpClient)
                                       (dialerTimeout tcpClient), Sleep (connSleep tcpClient)])
              @ [Dial (network tcpClient) (address tcpClient) (dialerTimeout tcpClient)],
           dialResult sampleEnv 2)"
    by (rule dialLoop_first_answer) (simp_all add: tcpClient_def timedOut_def sampleEnv_def)
  then show ?thesis
    by (simp add: dial_def dialerTimeout_def dialResult_def tcpClient_def sampleEnv_def
          defaultTimeout_def defaultSleep_def Second_def numeral_2_eq_2)
qed

lemma dial_sample_readLine:
  "dial (sampleEnv\<lparr>connReadLine := f\<rparr>) tcpClient w = dial sampleEnv tcpClient w"
proof -
  have "\<And>i w res. dialLoop (sampleEnv\<lparr>connReadLine := f\<rparr>) tcpClient t i w res =
          dialLoop sampleEnv tcpClient t i w res" for t
  proof -
    fix i :: int and w :: trace and res :: "conn option \<times> error option"
    show "dialLoop (sampleEnv\<lparr>connReadLine := f\<rparr>) tcpClient t i w res =
          dialLoop sampleEnv tcpClient t i w res"
    proof (induction "nat (connRetries tcpClient + 1 - i)" arbitrary: i w res)
      case 0
      then have "\<not> i \<le> connRetries tcpClient" by simp
      then show ?case
        by (subst dialLoop_step, subst (2) dialLoop_step) simp
    next
      case (Suc d)
      have d: "d = nat (connRetries tcpClient + 1 - (i + 1))" using Suc.hyps(2) by simp
      show ?case
        by (subst dialLoop_step, subst (2) dialLoop_step)
           (simp add: Suc.hyps(1) [OF d] timedOut_def dialResult_def)
    qed
  qed
  then show ?thesis by (simp add: dial_def)
qed

theorem ScanReader_request_line_witness:
  "contentLength (BytesBuffer eicarVirus) = Known 68 \<and>
   sent (fst (ScanReader sampleEnv tcpClient (BytesBuffer eicarVirus) [])) =
     [SendLine ''stream/68'', SendPayload eicarVirus] \<and>
   ScanReader (sampleEnv\<lparr>connReadLine := \<lambda>k. Inr ''REJ''\<rparr>) tcpClient
       (BytesBuffer eicarVirus) [] =
     ([Dial ''tcp'' ''127.1.1.1:4010'' 15000000000, Sleep 1000000000,
       Dial ''tcp'' ''127.1.1.1:4010'' 15000000000, Sleep 1000000000,
       Dial ''tcp'' ''127.1.1.1:4010'' 15000000000,
       SetDeadline 60000000000, SendLine ''stream/68'',
       SetDeadline 60000000000, RecvLine, Close],
      Return (None, Some (ErrorString ''Invalid server response: REJ'')))"
proof -
  let ?b = "BytesBuffer eicarVirus"
  let ?ev = "sampleEnv\<lparr>connReadLine := \<lambda>k. Inr ''REJ''\<rparr>"
  have len: "contentLength ?b = Known 68"
    by (simp add: length_eicarVirus)
  note t = ScanReader_request_line [OF len]
  have cmd: "cmdTimeout tcpClient = 60000000000"
    by (simp add: tcpClient_def defaultCmdTimeout_def Minute_def Second_def)
  have "\<exists>rest. fst (ScanReader sampleEnv tcpClient ?b []) =
          fst (dial sampleEnv tcpClient []) @
            [SetDeadline (cmdTimeout tcpClient), SendLine (''stream/'' @ dec 68)] @ rest"
    using t [of sampleEnv tcpClient "[]"] dial_sample by simp
  moreover have "sent (fst (ScanReader sampleEnv tcpClient ?b [])) = sent [] \<or>
      sent (fst (ScanReader sampleEnv tcpClient ?b [])) = sent [] @ [SendLine (''stream/'' @ dec 68)] \<or>
      sent (fst (ScanReader sampleEnv tcpClient ?b [])) =
        sent [] @ [SendLine (''stream/'' @ dec 68), SendPayload (unread ?b)]"
    using t [of sampleEnv tcpClient "[]"] by blast
  moreover have "sent (fst (ScanReader sampleEnv tcpClient ?b [])) =
       [SendLine ''stream/68'', SendPayload eicarVirus]"
    using readerCmd_connected [OF dial_sample len]
    by (simp add: ScanReader_def Let_def sent_def sampleEnv_def dec_68)
  ultimately have a: "sent (fst (ScanReader sampleEnv tcpClient ?b [])) =
       [SendLine ''stream/68'', SendPayload eicarVirus]"
    by blast
  have d: "dial ?ev tcpClient [] = (fst (dial sampleEnv tcpClient []), Some (Conn 1), None)"
    by (simp add: dial_sample_readLine dial_sample)
  have "dial ?ev tcpClient [] = (fst (dial sampleEnv tcpClient []), Some (Conn 1), None) \<and>
        connPrintfLine ?ev = None \<and> connReadLine ?ev 0 = Inr ''REJ'' \<and> ''REJ'' \<noteq> ''OK''"
    using d by (simp add: sampleEnv_def)
  with t [of ?ev tcpClient "[]"]
  have "ScanReader ?ev tcpClient ?b [] =
          (fst (dial sampleEnv tcpClient []) @
             [SetDeadline (cmdTimeout tcpClient), SendLine (''stream/'' @ dec 68),
              SetDeadline (cmdTimeout tcpClient), RecvLine, Close],
           Return (None, Some (ErrorString (''Invalid server response: '' @ ''REJ''))))"
    by blast
  then have b: "ScanReader ?ev tcpClient ?b [] =
     ([Dial ''tcp'' ''127.1.1.1:4010'' 15000000000, Sleep 1000000000,
       Dial ''tcp'' ''127.1.1.1:4010'' 15000000000, Sleep 1000000000,
       Dial ''tcp'' ''127.1.1.1:4010'' 15000000000,
       SetDeadline 60000000000, SendLine ''stream/68'',
       SetDeadline 60000000000, RecvLine, Close],
      Return (None, Some (ErrorString ''Invalid server response: REJ'')))"
    by (simp add: dial_sample cmd dec_68)
  from len a b show ?thesis by blast
qed

text \<open>
  C8 (as amended). The length is examined after the dial. Once the dial has succeeded, a
  reader of no recognised kind makes \<open>ScanReader\<close> fail with
  \<open>The content length could not be determined\<close> and close the connection; a buffer, a
  bytes reader and a strings reader have their number of unread bytes sent as the length,
  an open file the size its \<open>Stat\<close> reports; an open file whose \<open>Stat\<close> fails makes the
  call fail with that error. When the dial fails, its error is returned whatever the
  reader.
\<close>

theorem ScanReader_content_length:
  assumes "dial ev c w = (w1, cn, err)" and "cn \<noteq> None \<or> err \<noteq> None"
  shows "(err \<noteq> None \<and> ScanReader ev c i w = (w1, Return (None, err))) \<or>
         (err = None \<and>
          ScanReader ev c (OtherReader b) w =
            (w1 @ [Close],
             Return (None, Some (ErrorString ''The content length could not be determined''))) \<and>
          ScanReader ev c (OSFile (Inl e) b) w = (w1 @ [Close], Return (None, Some e)) \<and>
          (\<exists>rest. fst (ScanReader ev c (BytesBuffer b) w) =
             w1 @ [SetDeadline (cmdTimeout c), SendLine (''stream/'' @ dec (int (length b)))]
                @ rest) \<and>
          (\<exists>rest. fst (ScanReader ev c (BytesReader b) w) =
             w1 @ [SetDeadline (cmdTimeout c), SendLine (''stream/'' @ dec (int (length b)))]
                @ rest) \<and>
          (\<exists>rest. fst (ScanReader ev c (StringsReader b) w) =
             w1 @ [SetDeadline (cmdTimeout c), SendLine (''stream/'' @ dec (int (length b)))]
                @ rest) \<and>
          (\<exists>rest. fst (ScanReader ev c (OSFile (Inr fi) b) w) =
             w1 @ [SetDeadline (cmdTimeout c), SendLine (''stream/'' @ dec (Size fi))]
                @ rest))"
proof (cases "err = None")
  case False
  with assms(1) show ?thesis
    by (simp add: ScanReader_def readerCmd_def)
next
  case True
  with assms obtain k where d: "dial ev c w = (w1, Some k, None)"
    by auto
  have known: "\<exists>rest. fst (ScanReader ev c j w) =
                 w1 @ [SetDeadline (cmdTimeout c), SendLine (''stream/'' @ dec n)] @ rest"
    if "contentLength j = Known n" for j n
    using readerCmd_connected [OF d that]
    by (simp add: ScanReader_def Let_def split: option.splits sum.splits)
  have "ScanReader ev c (OtherReader b) w =
          (w1 @ [Close],
           Return (None, Some (ErrorString ''The content length could not be determined'')))"
    using d by (simp add: ScanReader_def readerCmd_def noSizeErr_def)
  moreover have "ScanReader ev c (OSFile (Inl e) b) w = (w1 @ [Close], Return (None, Some e))"
    using d by (simp add: ScanReader_def readerCmd_def)
  ultimately show ?thesis
    using True known [of "BytesBuffer b" "int (length b)"]
      known [of "BytesReader b" "int (length b)"]
      known [of "StringsReader b" "int (length b)"]
      known [of "OSFile (Inr fi) b" "Size fi"]
    by simp
qed

theorem ScanReader_content_length_witness:
  "ScanReader sampleEnv tcpClient (OtherReader ''BZh91AY'') [] =
     ([Dial ''tcp'' ''127.1.1.1:4010'' 15000000000, Sleep 1000000000,
       Dial ''tcp'' ''127.1.1.1:4010'' 15000000000, Sleep 1000000000,
       Dial ''tcp'' ''127.1.1.1:4010'' 15000000000, Close],
      Return (None, Some (ErrorString ''The content length could not be determined'')))"
proof -
  have "Some (Conn 1) \<noteq> None \<or> (None :: error option) \<noteq> None"
    by simp
  from ScanReader_content_length [OF dial_sample this, of _ "''BZh91AY''"]
  show ?thesis by simp
qed

text \<open>
  C8 (as stated) fails: when the daemon refuses the connection, a reader of no recognised
  kind makes \<open>ScanReader\<close> fail with the error of the dial.
\<close>

theorem ScanReader_unknown_length_counterexample:
  "ScanReader (sampleEnv\<lparr>netDial := \<lambda>k. Inl (NetError False ''connection refused'')\<rparr>)
       tcpClient (OtherReader ''BZh91AY'') [] =
     ([Dial ''tcp'' ''127.1.1.1:4010'' 15000000000],
      Return (None, Some (NetError False ''connection refused'')))"
  by (simp add: ScanReader_def readerCmd_def dial_def tcpClient_def dialerTimeout_def
        defaultTimeout_def Second_def, subst dialLoop_step)
     (simp add: timedOut_def dialResult_def)

section \<open>Responses\<close>

text \<open>The response of a scan is what \<open>processResponse\<close> decoded.\<close>

lemma readerCmd_response:
  assumes "readerCmd ev c i w = (w', Return (Some r, e))"
  shows "processResponse (connReadLine ev 1) '''' = Return (Some r, e)"
  using assms
  by (auto simp: readerCmd_def Let_def
           split: prod.splits if_splits clen.splits option.splits sum.splits)

lemma fileCmd_response:
  assumes "fileCmd ev c p w = (w', Return (Some r, e))"
  shows "processResponse (connReadLine ev 1) '''' = Return (Some r, e) \<or>
         processResponse (connReadLine ev 0) p = Return (Some r, e)"
  using assms
  by (auto simp: fileCmd_def Let_def dest: readerCmd_response
           split: prod.splits if_splits option.splits sum.splits)

text \<open>
  C3 (as amended). In every response of a successful decode, by \<open>processResponse\<close> itself
  or inside \<open>Scan\<close> or \<open>ScanReader\<close>, a non-empty signature implies the infected flag. The
  flag is set exactly for the lines that begin with \<open>1\<close>; the signature is then the line
  without its first two bytes, and it is empty exactly when the line has two bytes.
\<close>

theorem response_signature_infected:
  assumes "processResponse rl p = Return (Some r, None) \<or>
           Scan ev c q w = (w', Return (Some r, None)) \<or>
           ScanReader ev c i w = (w', Return (Some r, None))"
  shows "(Signature r \<noteq> '''' \<longrightarrow> Infected r) \<and>
         (Infected r \<longleftrightarrow> HasPrefix (Raw r) ''1'') \<and>
         (Infected r \<longrightarrow> Signature r = drop 2 (Raw r) \<and> 2 \<le> length (Raw r)) \<and>
         (Infected r \<and> Signature r = '''' \<longleftrightarrow> HasPrefix (Raw r) ''1'' \<and> length (Raw r) = 2)"
proof -
  from assms obtain rl' p' where "processResponse rl' p' = Return (Some r, None)"
    unfolding Scan_def ScanReader_def
    using readerCmd_response fileCmd_response by blast
  from processResponse_success [OF this] show ?thesis
    by blast
qed

theorem response_signature_infected_witness:
  "Scan sampleEnv tcpClient ''/srv/data/eicar.txt'' [] =
     ([Dial ''tcp'' ''127.1.1.1:4010'' 15000000000, Sleep 1000000000,
       Dial ''tcp'' ''127.1.1.1:4010'' 15000000000, Sleep 1000000000,
       Dial ''tcp'' ''127.1.1.1:4010'' 15000000000,
       SetDeadline 60000000000, SendLine ''stream/68'',
       SetDeadline 60000000000, RecvLine,
       SetDeadline 60000000000, SendPayload eicarVirus,
       Flush, SetDeadline 60000000000, RecvLine, Close],
      Return (Some \<lparr>Filename = ''stream'', Signature = ''EICAR-AV-Test'', Infected = True,
                     Raw = ''1:EICAR-AV-Test''\<rparr>, None)) \<and>
   HasPrefix ''1:EICAR-AV-Test'' ''1'' \<and> ''EICAR-AV-Test'' = drop 2 ''1:EICAR-AV-Test''"
proof -
  let ?r = "\<lparr>Filename = ''stream'', Signature = ''EICAR-AV-Test'', Infected = True,
             Raw = ''1:EICAR-AV-Test''\<rparr>"
  let ?w = "[Dial ''tcp'' ''127.1.1.1:4010'' 15000000000, Sleep 1000000000,
       Dial ''tcp'' ''127.1.1.1:4010'' 15000000000, Sleep 1000000000,
       Dial ''tcp'' ''127.1.1.1:4010'' 15000000000,
       SetDeadline 60000000000, SendLine ''stream/68'',
       SetDeadline 60000000000, RecvLine,
       SetDeadline 60000000000, SendPayload eicarVirus,
       Flush, SetDeadline 60000000000, RecvLine, Close]"
  have len: "contentLength (OSFile (Inr eicarInfo) eicarVirus) = Known 68"
    by (simp add: eicarInfo_def)
  have dec: "processResponse (Inr ''1:EICAR-AV-Test'') '''' = Return (Some ?r, None)"
    by (simp add: processResponse_def sliceFrom_def HasPrefix_def)
  have rd: "readerCmd sampleEnv tcpClient (OSFile (Inr eicarInfo) eicarVirus) [] =
              (?w, Return (Some ?r, None))"
    using readerCmd_connected [OF dial_sample len] dec
    by (simp add: Let_def sampleEnv_def dec_68 tcpClient_def defaultCmdTimeout_def
          Minute_def Second_def)
  have h: "Scan sampleEnv tcpClient ''/srv/data/eicar.txt'' [] = (?w, Return (Some ?r, None))"
    unfolding Scan_def fileCmd_def
    using rd by (simp add: sampleEnv_def tcpClient_def eicarInfo_def)
  then have "processResponse (Inr ''0'') '''' = Return (Some ?r, None) \<or>
           Scan sampleEnv tcpClient ''/srv/data/eicar.txt'' [] = (?w, Return (Some ?r, None)) \<or>
           ScanReader sampleEnv tcpClient (OtherReader []) [] = (?w, Return (Some ?r, None))"
    by blast
  from response_signature_infected [OF this] h show ?thesis
    by simp
qed

text \<open>
  C3 (as stated) fails: the line \<open>1:\<close> decodes without error to an infected response with
  an empty signature.
\<close>

theorem processResponse_empty_signature_counterexample:
  "processResponse (Inr ''1:'') '''' =
     Return (Some \<lparr>Filename = ''stream'', Signature = '''', Infected = True, Raw = ''1:''\<rparr>,
             None)"
  by (simp add: processResponse_def sliceFrom_def HasPrefix_def)

end
